theory Spec2Isabelle
  imports Main "HOL-Library.AList"
begin

section \<open>Python strings\<close>

text \<open>
  A Python \<open>str\<close> is modelled as a list of \<^typ>\<open>char\<close>, each character read as
  the Unicode code point of the same number, so the model covers the texts whose code
  points are below 256. The character classes below are those of CPython 3 on that range:
  \<open>str.isspace\<close>, \<open>str.strip\<close>, \<open>str.split\<close> and the regular expression class
  \<open>\s\<close> share one whitespace set; \<open>str.isdigit\<close> accepts the superscript digits
  U+00B2, U+00B3 and U+00B9 besides \<open>0\<close> to \<open>9\<close>, while \<open>\d\<close>, \<open>int\<close> and
  \<open>float\<close> accept \<open>0\<close> to \<open>9\<close> only.
\<close>

definition isspace :: "char \<Rightarrow> bool" where
  "isspace c \<longleftrightarrow> c \<in> set [CHR 0x09, CHR 0x0A, CHR 0x0B, CHR 0x0C, CHR 0x0D,
     CHR 0x1C, CHR 0x1D, CHR 0x1E, CHR 0x1F, CHR 0x20, CHR 0x85, CHR 0xA0]"

definition isdecimal :: "char \<Rightarrow> bool" where
  "isdecimal c \<longleftrightarrow> c \<in> set ''0123456789''"

definition isdigit_char :: "char \<Rightarrow> bool" where
  "isdigit_char c \<longleftrightarrow> isdecimal c \<or> c \<in> set [CHR 0xB2, CHR 0xB3, CHR 0xB9]"

definition isdigit :: "string \<Rightarrow> bool" where
  "isdigit s \<longleftrightarrow> s \<noteq> [] \<and> list_all isdigit_char s"

definition upper_chars :: "char list" where
  "upper_chars = ''ABCDEFGHIJKLMNOPQRSTUVWXYZ'' @
     [CHR 0xC0, CHR 0xC1, CHR 0xC2, CHR 0xC3, CHR 0xC4, CHR 0xC5, CHR 0xC6, CHR 0xC7,
      CHR 0xC8, CHR 0xC9, CHR 0xCA, CHR 0xCB, CHR 0xCC, CHR 0xCD, CHR 0xCE, CHR 0xCF,
      CHR 0xD0, CHR 0xD1, CHR 0xD2, CHR 0xD3, CHR 0xD4, CHR 0xD5, CHR 0xD6,
      CHR 0xD8, CHR 0xD9, CHR 0xDA, CHR 0xDB, CHR 0xDC, CHR 0xDD, CHR 0xDE]"

definition lower_chars :: "char list" where
  "lower_chars = ''abcdefghijklmnopqrstuvwxyz'' @
     [CHR 0xE0, CHR 0xE1, CHR 0xE2, CHR 0xE3, CHR 0xE4, CHR 0xE5, CHR 0xE6, CHR 0xE7,
      CHR 0xE8, CHR 0xE9, CHR 0xEA, CHR 0xEB, CHR 0xEC, CHR 0xED, CHR 0xEE, CHR 0xEF,
      CHR 0xF0, CHR 0xF1, CHR 0xF2, CHR 0xF3, CHR 0xF4, CHR 0xF5, CHR 0xF6,
      CHR 0xF8, CHR 0xF9, CHR 0xFA, CHR 0xFB, CHR 0xFC, CHR 0xFD, CHR 0xFE]"

definition lower_char :: "char \<Rightarrow> char" where
  "lower_char c = (case map_of (zip upper_chars lower_chars) c of Some l \<Rightarrow> l | None \<Rightarrow> c)"

definition lower :: "string \<Rightarrow> string" where
  "lower s = map lower_char s"

definition strip :: "string \<Rightarrow> string" where
  "strip s = rev (dropWhile isspace (rev (dropWhile isspace s)))"

fun startswith :: "string \<Rightarrow> string \<Rightarrow> bool" where
  "startswith s [] = True"
| "startswith [] (p # ps) = False"
| "startswith (x # xs) (p # ps) = (x = p \<and> startswith xs ps)"

definition endswith :: "string \<Rightarrow> string \<Rightarrow> bool" where
  "endswith s p = startswith (rev s) (rev p)"

text \<open>\<open>sub in s\<close>\<close>

fun contains :: "string \<Rightarrow> string \<Rightarrow> bool" where
  "contains sub [] = (sub = [])"
| "contains sub (x # xs) = (startswith (x # xs) sub \<or> contains sub xs)"

text \<open>\<open>s.split(c)\<close> for a one-character separator: always at least one part.\<close>

fun split_on :: "char \<Rightarrow> string \<Rightarrow> string list" where
  "split_on c [] = [[]]"
| "split_on c (x # xs) =
     (if x = c then [] # split_on c xs
      else (case split_on c xs of p # ps \<Rightarrow> (x # p) # ps | [] \<Rightarrow> [[x]]))"

text \<open>\<open>s.split()\<close>: the maximal runs of non-whitespace characters.\<close>

fun split_ws_aux :: "string \<Rightarrow> string \<Rightarrow> string list" where
  "split_ws_aux w [] = (if w = [] then [] else [rev w])"
| "split_ws_aux w (x # xs) =
     (if isspace x then (if w = [] then split_ws_aux [] xs else rev w # split_ws_aux [] xs)
      else split_ws_aux (x # w) xs)"

definition split_ws :: "string \<Rightarrow> string list" where
  "split_ws s = split_ws_aux [] s"

text \<open>\<open>s.replace(old, new)\<close> for a non-empty \<open>old\<close>: non-overlapping occurrences, left to right.\<close>

fun replace :: "string \<Rightarrow> string \<Rightarrow> string \<Rightarrow> string" where
  "replace old new [] = []"
| "replace old new (x # xs) =
     (if old \<noteq> [] \<and> startswith (x # xs) old
      then new @ replace old new (drop (length old) (x # xs))
      else x # replace old new xs)"


text \<open>
  \<open>int(s)\<close> in base 10 and the test whether \<open>float(s)\<close> succeeds. Both strip their
  own whitespace set (smaller than that of \<open>str.strip\<close>), take an optional sign, and
  allow single underscores between digits.
\<close>

definition num_ws :: "char \<Rightarrow> bool" where
  "num_ws c \<longleftrightarrow> c \<in> set [CHR 0x09, CHR 0x0A, CHR 0x0B, CHR 0x0C, CHR 0x0D, CHR 0x20,
     CHR 0x85, CHR 0xA0]"

definition num_strip :: "string \<Rightarrow> string" where
  "num_strip s = rev (dropWhile num_ws (rev (dropWhile num_ws s)))"

fun digitpart_from :: "bool \<Rightarrow> string \<Rightarrow> bool" where
  "digitpart_from prev [] = prev"
| "digitpart_from prev (c # cs) =
     (if isdecimal c then digitpart_from True cs
      else c = CHR ''_'' \<and> prev \<and> digitpart_from False cs)"

definition digitpart :: "string \<Rightarrow> bool" where
  "digitpart s = digitpart_from False s"

definition digit_val :: "char \<Rightarrow> nat" where
  "digit_val c = length (takeWhile (\<lambda>d. d \<noteq> c) ''0123456789'')"

definition drop_sign :: "string \<Rightarrow> string" where
  "drop_sign s = (case s of c # cs \<Rightarrow> if c = CHR ''+'' \<or> c = CHR ''-'' then cs else s | [] \<Rightarrow> [])"

definition py_int :: "string \<Rightarrow> int option" where
  "py_int s =
     (let t = num_strip s; body = drop_sign t in
      if digitpart body
      then Some ((if startswith t ''-'' then - 1 else 1) *
                 int (foldl (\<lambda>a c. 10 * a + digit_val c) 0 (filter isdecimal body)))
      else None)"

definition mantissa_ok :: "string \<Rightarrow> bool" where
  "mantissa_ok m =
     (let a = takeWhile (\<lambda>c. c \<noteq> CHR ''.'') m; r = dropWhile (\<lambda>c. c \<noteq> CHR ''.'') m in
      case r of [] \<Rightarrow> digitpart a
      | _ # b \<Rightarrow> (digitpart a \<and> (b = [] \<or> digitpart b)) \<or> (a = [] \<and> digitpart b))"

definition floatnumber_ok :: "string \<Rightarrow> bool" where
  "floatnumber_ok u =
     (let m = takeWhile (\<lambda>c. c \<noteq> CHR ''e'' \<and> c \<noteq> CHR ''E'') u;
          r = dropWhile (\<lambda>c. c \<noteq> CHR ''e'' \<and> c \<noteq> CHR ''E'') u in
      case r of [] \<Rightarrow> mantissa_ok m
      | _ # ex \<Rightarrow> mantissa_ok m \<and> digitpart (drop_sign ex))"

definition py_float_ok :: "string \<Rightarrow> bool" where
  "py_float_ok s =
     (let u = drop_sign (num_strip s) in
      lower u \<in> set [''inf'', ''infinity'', ''nan''] \<or> floatnumber_ok u)"

section \<open>Regular expressions\<close>

text \<open>
  The patterns of the program use literals, character sets, \<open>\d\<close>, \<open>\s\<close>, \<open>.\<close>,
  greedy repetition, groups and the anchors \<open>^\<close> and \<open>$\<close>. A backtracking matcher
  returns the states reachable by a pattern in the order in which Python's engine tries
  them (greedy repetition prefers more iterations), so the head of the list is the match
  Python reports. A state is the offset from the start of the text, the rest of the text,
  and the groups captured so far (latest first). Under \<open>IGNORECASE\<close> (the flag \<open>ic\<close>)
  letters are compared after lower-casing.
\<close>

datatype cset = CLit char | COneOf "char list" | CNoneOf "char list" | CDigit | CSpace | CDot

fun cmatch :: "bool \<Rightarrow> cset \<Rightarrow> char \<Rightarrow> bool" where
  "cmatch ic (CLit a) x = (if ic then lower_char x = lower_char a else x = a)"
| "cmatch ic (COneOf cs) x =
     (if ic then lower_char x \<in> set (map lower_char cs) else x \<in> set cs)"
| "cmatch ic (CNoneOf cs) x =
     (if ic then lower_char x \<notin> set (map lower_char cs) else x \<notin> set cs)"
| "cmatch ic CDigit x = isdecimal x"
| "cmatch ic CSpace x = isspace x"
| "cmatch ic CDot x = (x \<noteq> CHR 0x0A)"

datatype regex = Eps | Sym cset | Seq regex regex | Alt regex regex | Star regex
  | Grp nat regex | Bol | Eol

type_synonym groups = "(nat \<times> string) list"
type_synonym mstate = "nat \<times> string \<times> groups"

function rmatch :: "bool \<Rightarrow> regex \<Rightarrow> mstate \<Rightarrow> mstate list" where
  "rmatch ic Eps st = [st]"
| "rmatch ic (Sym c) (i, s, g) =
     (case s of [] \<Rightarrow> [] | x # xs \<Rightarrow> if cmatch ic c x then [(Suc i, xs, g)] else [])"
| "rmatch ic (Seq a b) st = concat (map (rmatch ic b) (rmatch ic a st))"
| "rmatch ic (Alt a b) st = rmatch ic a st @ rmatch ic b st"
| "rmatch ic (Star a) (i, s, g) =
     concat (map (\<lambda>st'. if length (fst (snd st')) < length s
                          then rmatch ic (Star a) st' else [])
                 (rmatch ic a (i, s, g))) @ [(i, s, g)]"
| "rmatch ic (Grp n a) (i, s, g) =
     map (\<lambda>(j, s', g'). (j, s', (n, take (j - i) s) # g')) (rmatch ic a (i, s, g))"
| "rmatch ic Bol (i, s, g) = (if i = 0 then [(i, s, g)] else [])"
| "rmatch ic Eol (i, s, g) = (if s = [] \<or> s = [CHR 0x0A] then [(i, s, g)] else [])"
  by pat_completeness auto
termination
  by (relation "measures [\<lambda>(ic, r, st). size r, \<lambda>(ic, r, (i, s, g)). length s]") auto

definition Plus :: "regex \<Rightarrow> regex" where
  "Plus r = Seq r (Star r)"

definition Opt :: "regex \<Rightarrow> regex" where
  "Opt r = Alt r Eps"

definition Lit :: "char \<Rightarrow> regex" where
  "Lit c = Sym (CLit c)"

fun Str :: "string \<Rightarrow> regex" where
  "Str [] = Eps"
| "Str [c] = Sym (CLit c)"
| "Str (c # cs) = Seq (Sym (CLit c)) (Str cs)"

fun Seqs :: "regex list \<Rightarrow> regex" where
  "Seqs [] = Eps"
| "Seqs [r] = r"
| "Seqs (r # rs) = Seq r (Seqs rs)"

text \<open>\<open>r{m,n}\<close>: \<open>m\<close> copies of \<open>r\<close>, then up to \<open>n - m\<close> optional ones, greedily.\<close>

fun Upto :: "nat \<Rightarrow> regex \<Rightarrow> regex" where
  "Upto 0 r = Eps"
| "Upto (Suc n) r = Opt (Seq r (Upto n r))"

definition Rep :: "nat \<Rightarrow> nat \<Rightarrow> regex \<Rightarrow> regex" where
  "Rep m n r = Seq (Seqs (replicate m r)) (Upto (n - m) r)"

text \<open>The match at offset \<open>i\<close>, where \<open>s\<close> is the text from \<open>i\<close> on.\<close>

definition match_at :: "bool \<Rightarrow> regex \<Rightarrow> nat \<Rightarrow> string \<Rightarrow> mstate option" where
  "match_at ic r i s = (case rmatch ic r (i, s, []) of [] \<Rightarrow> None | m # _ \<Rightarrow> Some m)"

text \<open>\<open>re.match(r, s)\<close>\<close>

definition re_match :: "bool \<Rightarrow> regex \<Rightarrow> string \<Rightarrow> mstate option" where
  "re_match ic r s = match_at ic r 0 s"

text \<open>\<open>m.group(n)\<close>, \<open>None\<close> for a group that took no part in the match.\<close>

definition group :: "mstate \<Rightarrow> nat \<Rightarrow> string option" where
  "group m n = map_of (snd (snd m)) n"


text \<open>
  Substitution and splitting scan the text from left to right as CPython does: at each
  offset the pattern is tried; after a match the scan continues behind it, and a match
  that consumed nothing forces the next match at the same offset to consume something
  (\<open>must_advance\<close>, the flag \<open>ma\<close>); where nothing matches, one character is
  passed over. The scan returns the matches found, each with the text passed over
  before it and its groups, and the text behind the last match.
\<close>

definition match_here :: "bool \<Rightarrow> regex \<Rightarrow> bool \<Rightarrow> nat \<Rightarrow> string \<Rightarrow> mstate option" where
  "match_here ic r ma i s =
     (case filter (\<lambda>m. if ma then length (fst (snd m)) < length s
                          else length (fst (snd m)) \<le> length s)
                  (rmatch ic r (i, s, [])) of
        [] \<Rightarrow> None | m # _ \<Rightarrow> Some m)"

type_synonym pieces = "(string \<times> groups) list \<times> string"

definition push_char :: "char \<Rightarrow> pieces \<Rightarrow> pieces" where
  "push_char x p =
     (case p of ([], rest) \<Rightarrow> ([], x # rest)
      | ((t, g) # ps, rest) \<Rightarrow> ((x # t, g) # ps, rest))"

definition push_match :: "groups \<Rightarrow> pieces \<Rightarrow> pieces" where
  "push_match g p = (case p of (ps, rest) \<Rightarrow> (([], g) # ps, rest))"

function re_scan :: "bool \<Rightarrow> regex \<Rightarrow> bool \<Rightarrow> nat \<Rightarrow> string \<Rightarrow> pieces" where
  "re_scan ic r ma i s =
     (case match_here ic r ma i s of
        Some m \<Rightarrow>
          push_match (snd (snd m))
            (re_scan ic r (\<not> length (fst (snd m)) < length s) (fst m) (fst (snd m)))
      | None \<Rightarrow>
          (case s of [] \<Rightarrow> ([], [])
           | x # xs \<Rightarrow> push_char x (re_scan ic r False (Suc i) xs)))"
  by pat_completeness auto
termination
proof (relation "measure (\<lambda>(ic, r, ma, i, s). 2 * length s + (if ma then 0 else 1))")
  show "wf (measure (\<lambda>(ic, r, ma, i, s). 2 * length s + (if ma then 0 else 1)))"
    by simp
next
  fix ic :: bool and r :: regex and ma :: bool and i :: nat and s :: string and m :: mstate
  assume "match_here ic r ma i s = Some m"
  then obtain ms where "filter (\<lambda>m. if ma then length (fst (snd m)) < length s
                                      else length (fst (snd m)) \<le> length s)
                              (rmatch ic r (i, s, [])) = m # ms"
    by (auto simp add: match_here_def split: list.splits)
  then have "m \<in> set (filter (\<lambda>m. if ma then length (fst (snd m)) < length s
                                  else length (fst (snd m)) \<le> length s)
                          (rmatch ic r (i, s, [])))"
    by (metis list.set_intros(1))
  then have "if ma then length (fst (snd m)) < length s else length (fst (snd m)) \<le> length s"
    by simp
  then show "((ic, r, \<not> length (fst (snd m)) < length s, fst m, fst (snd m)), (ic, r, ma, i, s))
      \<in> measure (\<lambda>(ic, r, ma, i, s). 2 * length s + (if ma then 0 else 1))"
    by (auto split: if_splits)
next
  fix ic :: bool and r :: regex and ma :: bool and i :: nat and s :: string
    and x :: char and xs :: string
  assume "s = x # xs"
  then show "((ic, r, False, Suc i, xs), (ic, r, ma, i, s))
      \<in> measure (\<lambda>(ic, r, ma, i, s). 2 * length s + (if ma then 0 else 1))"
    by simp
qed

text \<open>A replacement template: literal text and references \<open>\n\<close> to groups.\<close>

datatype tpl = TLit string | TGrp nat

definition expand :: "tpl list \<Rightarrow> groups \<Rightarrow> string" where
  "expand rep g = concat (map (\<lambda>t. case t of TLit s \<Rightarrow> s
      | TGrp n \<Rightarrow> (case map_of g n of Some s \<Rightarrow> s | None \<Rightarrow> [])) rep)"

text \<open>\<open>re.sub(r, rep, s)\<close>\<close>

definition re_sub :: "bool \<Rightarrow> regex \<Rightarrow> tpl list \<Rightarrow> string \<Rightarrow> string" where
  "re_sub ic r rep s =
     (case re_scan ic r False 0 s of
        (ps, rest) \<Rightarrow> concat (map (\<lambda>(t, g). t @ expand rep g) ps) @ rest)"

text \<open>\<open>re.split(r, s)\<close> for a pattern without groups\<close>

definition re_split :: "bool \<Rightarrow> regex \<Rightarrow> string \<Rightarrow> string list" where
  "re_split ic r s = (case re_scan ic r False 0 s of (ps, rest) \<Rightarrow> map fst ps @ [rest])"

text \<open>\<open>re.search(r, s)\<close>, from offset \<open>i\<close> on\<close>

fun re_search_from :: "bool \<Rightarrow> regex \<Rightarrow> nat \<Rightarrow> string \<Rightarrow> mstate option" where
  "re_search_from ic r i [] = match_at ic r i []"
| "re_search_from ic r i (x # xs) =
     (case match_at ic r i (x # xs) of
        Some m \<Rightarrow> Some m
      | None \<Rightarrow> re_search_from ic r (Suc i) xs)"

definition re_search :: "bool \<Rightarrow> regex \<Rightarrow> string \<Rightarrow> mstate option" where
  "re_search ic r s = re_search_from ic r 0 s"

section \<open>Constants of the program\<close>

definition LONG_TEXT_THRESHOLD :: nat where "LONG_TEXT_THRESHOLD = 200"
definition NUMERIC_CODE_MAX :: int where "NUMERIC_CODE_MAX = 20"
definition NUMERIC_CODE_RANGE_MIN :: int where "NUMERIC_CODE_RANGE_MIN = 100"
definition NUMERIC_CODE_RANGE_MAX :: int where "NUMERIC_CODE_RANGE_MAX = 300"
definition MULTI_VALUE_AVG_LENGTH_MAX :: nat where "MULTI_VALUE_AVG_LENGTH_MAX = 40"
definition SHORT_VALUE_MAX_LENGTH :: nat where "SHORT_VALUE_MAX_LENGTH = 30"

definition TIMING_SUFFIXES :: "string list" where
  "TIMING_SUFFIXES = [''_Page Submit'', ''_First Click'', ''_Last Click'', ''_Click Count'',
     ''_PageSubmit'', ''_FirstClick'', ''_LastClick'', ''_ClickCount'']"

definition METADATA_COLUMNS :: "string list" where
  "METADATA_COLUMNS = [''StartDate'', ''EndDate'', ''Status'', ''IPAddress'', ''Progress'',
     ''Duration (in seconds)'', ''Finished'', ''RecordedDate'', ''ResponseId'',
     ''RecipientLastName'', ''RecipientFirstName'', ''RecipientEmail'',
     ''ExternalReference'', ''LocationLatitude'', ''LocationLongitude'',
     ''DistributionChannel'', ''UserLanguage'', ''Browser'', ''Version'',
     ''Operating System'', ''Resolution'', ''DeviceType'', ''Q_TotalDuration'',
     ''Q_URL'', ''Q_BallotBoxStuffing'', ''Q_RelevantIDDuplicate'']"

definition NUMERIC_QUESTION_KEYWORDS :: "string list" where
  "NUMERIC_QUESTION_KEYWORDS = [''number'', ''count'', ''total'', ''how many'', ''percent'', ''%'',
     ''year'', ''age'', ''score'', ''gpa'', ''mcat'', ''credits'', ''hours'',
     ''fee'', ''tuition'', ''salary'', ''amount'', ''$'', ''usd'', ''dollar'',
     ''phone'', ''zip'', ''code'', ''id'', ''size'', ''rate'', ''ratio'',
     ''enrollment'', ''residents'', ''men'', ''women'', ''graduates'',
     ''indebtedness'', ''funds'', ''faculty'', ''research'', ''nih'',
     ''rank'', ''rating'', ''scale'', ''slider'', ''nps'', ''score'']"

definition FILE_EXTENSIONS :: "string list" where
  "FILE_EXTENSIONS = [''.pdf'', ''.doc'', ''.docx'', ''.xls'', ''.xlsx'', ''.jpg'', ''.jpeg'',
     ''.png'', ''.gif'', ''.mp3'', ''.mp4'', ''.zip'', ''.csv'', ''.txt'']"

text \<open>\<open>\s*\<close> and the number shape \<open>\d+\.?\d*\<close> occur in many patterns.\<close>

definition sp :: regex where
  "sp = Star (Sym CSpace)"

definition number :: regex where
  "number = Seqs [Plus (Sym CDigit), Opt (Lit CHR ''.''), Star (Sym CDigit)]"

definition survey_title :: regex where
  "survey_title = Str ''U.S. News Best Medical Schools Survey''"

definition BOILERPLATE_PATTERNS :: "regex list" where
  "BOILERPLATE_PATTERNS =
    [Seqs [sp, Str ''See Email Titled'', sp, Lit CHR 0x22, Star (Sym (CNoneOf [CHR 0x22])),
           Lit CHR 0x22, Star (Sym (CNoneOf ''.'')), Opt (Lit CHR ''.''), sp],
     Seqs [sp, Str ''See Email Titled'', Star (Sym (CNoneOf ''.'')), Opt (Lit CHR ''.''), sp],
     Seqs [sp, Str ''This data is rolled over from last year'', Opt (Lit CHR ''.''), sp],
     Seqs [sp, Str ''This question is used in the Rankings calculation'', Opt (Lit CHR ''.''), sp],
     Seqs [sp, Str ''RESPONSE NEEDED'', sp],
     Seqs [sp, Str ''ACTION NEEDED'', sp],
     Seqs [sp, Str ''DUE '', Rep 1 2 (Sym CDigit), Lit CHR ''/'', Rep 1 2 (Sym CDigit),
           Star (Sym (CNoneOf ''.'')), Opt (Lit CHR ''.''), sp],
     Seqs [sp, Str ''for PDF of Results from Last Year'', Opt (Lit CHR ''.''), sp],
     Seqs [sp, Lit CHR ''-'', sp, survey_title, sp],
     Seqs [sp, survey_title, sp],
     Seqs [sp, Str ''Click to write the question text'', sp],
     Seqs [sp, Str ''Please answer the following'', Opt (Lit CHR ''.''), sp]]"

section \<open>Utility functions\<close>

text \<open>
  A cell of the export is a string or missing (pandas' NaN, or \<open>None\<close> from
  \<open>row.get\<close>): \<^typ>\<open>string option\<close>. Exceptions are values of \<open>error\<close>.
\<close>

datatype error = ValueError | KeyError | IndexError | AttributeError | JSONDecodeError
  | FileNotFoundError

definition ebind :: "error + 'a \<Rightarrow> ('a \<Rightarrow> error + 'b) \<Rightarrow> error + 'b" where
  "ebind m f = (case m of Inl e \<Rightarrow> Inl e | Inr x \<Rightarrow> f x)"

definition safe_str :: "string option \<Rightarrow> string" where
  "safe_str v = (case v of None \<Rightarrow> [] | Some s \<Rightarrow> strip s)"

definition is_empty :: "string option \<Rightarrow> bool" where
  "is_empty v \<longleftrightarrow> v = None \<or> safe_str v = []"

definition contains_any :: "string \<Rightarrow> string list \<Rightarrow> bool" where
  "contains_any text keywords = (let text_lower = lower text in
     list_ex (\<lambda>kw. contains kw text_lower) keywords)"

definition is_numeric_value :: "string option \<Rightarrow> bool" where
  "is_numeric_value v =
     (let val = safe_str v in
      if val = [] then False
      else py_float_ok (strip (replace ''%'' [] (replace ''$'' [] (replace '','' [] val)))))"

section \<open>Value type detection\<close>

datatype value_type = Empty | Timing | Url | File | Coordinate | Json | Hierarchical
  | PipeList | SemicolonList | CommaList | LongText | Code | Text

definition short_digits :: "string \<Rightarrow> bool" where
  "short_digits p \<longleftrightarrow> isdigit (strip p) \<and> length (strip p) \<le> 3"

text \<open>\<open>int(val)\<close> raises \<open>ValueError\<close> where it cannot read \<open>val\<close>.\<close>

definition is_numeric_code :: "string option \<Rightarrow> string \<Rightarrow> error + bool" where
  "is_numeric_code v question_text =
     (let val = safe_str v in
      if val = [] then Inr False
      else if contains_any question_text NUMERIC_QUESTION_KEYWORDS then Inr False
      else if CHR '','' \<in> set val \<and> list_all short_digits (split_on CHR '','' val) then Inr True
      else if isdigit val then
        (case py_int val of
           None \<Rightarrow> Inl ValueError
         | Some num \<Rightarrow>
             if 1 \<le> num \<and> num \<le> NUMERIC_CODE_MAX then Inr True
             else if NUMERIC_CODE_RANGE_MIN \<le> num \<and> num \<le> NUMERIC_CODE_RANGE_MAX
                     \<and> num mod 100 \<noteq> 0 then Inr True
             else Inr False)
      else Inr False)"

definition is_url :: "string option \<Rightarrow> bool" where
  "is_url v = (let val = lower (safe_str v) in
     list_ex (startswith val) [''http://'', ''https://'', ''www.'', ''ftp://''])"

definition is_file_path :: "string option \<Rightarrow> bool" where
  "is_file_path v = (let val = lower (safe_str v) in list_ex (endswith val) FILE_EXTENSIONS)"

definition coordinate_patterns :: "regex list" where
  "coordinate_patterns =
    [Seqs [Bol, number, sp, Lit CHR '','', sp, number, Eol],
     Seqs [Bol, Lit CHR ''('', number, sp, Lit CHR '','', sp, number, Lit CHR '')'', Eol],
     Seqs [Bol, number, sp, Lit CHR '':'', sp, number, Eol],
     Seqs [Bol, Str ''x:'', sp, number, sp, Opt (Lit CHR '',''), sp, Str ''y:'', sp, number, Eol]]"

definition is_coordinate :: "string option \<Rightarrow> bool" where
  "is_coordinate v = (let val = safe_str v in
     list_ex (\<lambda>p. re_match True p val \<noteq> None) coordinate_patterns)"

definition is_timing_column :: "string \<Rightarrow> bool" where
  "is_timing_column column_id = list_ex (\<lambda>suffix. contains suffix column_id) TIMING_SUFFIXES"

definition is_json :: "string option \<Rightarrow> bool" where
  "is_json v = (let val = safe_str v in
     (startswith val ''{'' \<and> endswith val ''}'') \<or> (startswith val ''['' \<and> endswith val '']''))"

text \<open>
  The source tests a third separator, an arrow glyph between two spaces. Its code points
  lie above 255, so no text of the model contains it and the test is always false here.
\<close>

definition is_hierarchical :: "string option \<Rightarrow> bool" where
  "is_hierarchical v = (let val = safe_str v in contains '' > '' val \<or> contains '' >> '' val)"

text \<open>
  The comparison of the average length, a float in the source, is taken over the
  integers: \<open>sum / n > 40\<close> exactly when \<open>sum > 40 * n\<close>.
\<close>

definition is_multi_value :: "string option \<Rightarrow> char \<Rightarrow> bool" where
  "is_multi_value v separator =
     (let val = safe_str v in
      if separator \<notin> set val then False
      else let parts = split_on separator val in
        if list_all short_digits parts then False
        else if is_coordinate v then False
        else let text_parts = map strip (filter (\<lambda>p. length (strip p) > 2) parts) in
          if length text_parts < 2 then False
          else if sum_list (map length text_parts) > MULTI_VALUE_AVG_LENGTH_MAX * length text_parts
            then False
          else True)"

definition is_long_text :: "string option \<Rightarrow> bool" where
  "is_long_text v \<longleftrightarrow> length (safe_str v) > LONG_TEXT_THRESHOLD"

definition detect_value_type :: "string option \<Rightarrow> string \<Rightarrow> string \<Rightarrow> error + value_type" where
  "detect_value_type v question_text column_id =
     (if is_empty v then Inr Empty
      else if is_timing_column column_id then Inr Timing
      else if is_url v then Inr (if is_file_path v then File else Url)
      else if is_file_path v then Inr File
      else if is_coordinate v then Inr Coordinate
      else if is_json v then Inr Json
      else if is_hierarchical v then Inr Hierarchical
      else if is_multi_value v CHR ''|'' then Inr PipeList
      else if is_multi_value v CHR '';'' then Inr SemicolonList
      else if is_multi_value v CHR '','' then Inr CommaList
      else if is_long_text v then Inr LongText
      else ebind (is_numeric_code v question_text) (\<lambda>code. Inr (if code then Code else Text)))"


section \<open>Text normalisation\<close>

text \<open>
  \<open>html.unescape\<close> returns a text without \<open>&\<close> as it is and otherwise substitutes
  the character references it finds, by a table of the Python library. That substitution
  is the parameter \<open>charref_sub\<close>.
\<close>

definition unescape :: "(string \<Rightarrow> string) \<Rightarrow> string \<Rightarrow> string" where
  "unescape charref_sub s = (if CHR ''&'' \<in> set s then charref_sub s else s)"

definition tag_pattern :: regex where
  "tag_pattern = Seqs [Lit CHR ''<'', Plus (Sym (CNoneOf ''>'')), Lit CHR ''>'']"

definition strip_boilerplate :: "string \<Rightarrow> string" where
  "strip_boilerplate s = foldl (\<lambda>t pattern. re_sub True pattern [TLit '' ''] t) s BOILERPLATE_PATTERNS"

definition collapse_ws :: "string \<Rightarrow> string" where
  "collapse_ws s = strip (re_sub False (Plus (Sym CSpace)) [TLit '' ''] s)"

definition clean_html_text :: "(string \<Rightarrow> string) \<Rightarrow> string \<Rightarrow> string" where
  "clean_html_text charref_sub t =
     (if t = [] then []
      else collapse_ws (strip_boilerplate
             (re_sub False tag_pattern [TLit '' ''] (unescape charref_sub t))))"

text \<open>\<open>' '.join(xs)\<close> and its like\<close>

fun join :: "string \<Rightarrow> string list \<Rightarrow> string" where
  "join sep [] = []"
| "join sep [x] = x"
| "join sep (x # xs) = x @ sep @ join sep xs"

definition clean_question_text :: "string option \<Rightarrow> string" where
  "clean_question_text v =
     (case v of None \<Rightarrow> []
      | Some t0 \<Rightarrow>
         (let t1 = strip_boilerplate t0;
              t2 = re_sub False (Seqs [Bol, sp, Lit CHR ''-'', sp]) [] t1;
              t3 = re_sub False (Seqs [sp, Lit CHR ''-'', sp, Eol]) [] t2;
              t4 = re_sub False (Seqs [sp, Lit CHR ''-'', sp, Lit CHR ''-'', sp]) [TLit '' ''] t3;
              t5 = re_sub False (Seqs [Lit CHR 0x0A, Lit CHR 0x0A, Star (Lit CHR 0x0A)]) [TLit '' ''] t4;
              t6 = re_sub False (Plus (Lit CHR 0x09)) [TLit '' ''] t5
          in strip (join '' '' (split_ws t6))))"

definition year :: regex where
  "year = Rep 4 4 (Sym CDigit)"

definition extract_matrix_labels :: "string option \<Rightarrow> string \<times> string option \<times> string option" where
  "extract_matrix_labels v =
     (case v of None \<Rightarrow> ([], None, None)
      | Some t \<Rightarrow>
         (let cleaned = clean_question_text (Some t);
              protected = re_sub False (Seqs [Grp 1 year, sp, Lit CHR ''-'', sp, Grp 2 year])
                            [TGrp 1, TLit ''__DATERANGE__'', TGrp 2] cleaned;
              parts = map (replace ''__DATERANGE__'' '' - '')
                        (re_split False (Seqs [Plus (Sym CSpace), Lit CHR ''-'', Plus (Sym CSpace)])
                           protected);
              n = length parts
          in if n \<ge> 3 then (join '' - '' (take (n - 2) parts), Some (parts ! (n - 2)), Some (parts ! (n - 1)))
             else if n = 2 then (parts ! 0, Some (parts ! 1), None)
             else (cleaned, None, None)))"


section \<open>Value formatters\<close>

text \<open>
  \<open>format_code\<close> writes the value into its template as it is, without escaping.
\<close>

definition code_span_open :: string where
  "code_span_open = ''<span class='' @ [CHR 0x27] @ ''code-value'' @ [CHR 0x27] @ ''>''"

definition format_code :: "string option \<Rightarrow> string" where
  "format_code v =
     (let val = safe_str v in
      if CHR '','' \<in> set val
      then code_span_open @ ''[Selections: '' @ join '', '' (map strip (split_on CHR '','' val))
             @ '']</span>''
      else code_span_open @ ''[Code: '' @ val @ '']</span>'')"

text \<open>
  The other formatters wrap the value in fixed markup, some of it glyphs outside the
  character range of the model, and two of them call the JSON and float routines of the
  Python library. A formatted value is therefore kept as the tag that selected the
  formatter, the value and the column identifier handed to it: \<open>format_value\<close>
  decides which formatter runs, and that decision is what is modelled. The empty
  indicator is a fragment of its own; the list formatter falls back to it when the value
  has no non-blank part.
\<close>

datatype vfrag = NoResponse | Formatted value_type string string

definition list_separator :: "value_type \<Rightarrow> char option" where
  "list_separator t = (case t of PipeList \<Rightarrow> Some CHR ''|'' | SemicolonList \<Rightarrow> Some CHR '';''
     | CommaList \<Rightarrow> Some CHR '','' | _ \<Rightarrow> None)"

definition format_value :: "string option \<Rightarrow> string \<Rightarrow> string \<Rightarrow> error + vfrag" where
  "format_value v question_text column_id =
     ebind (detect_value_type v question_text column_id) (\<lambda>value_type.
       case v of None \<Rightarrow> Inr NoResponse
       | Some s \<Rightarrow>
          if value_type = Empty then Inr NoResponse
          else (case list_separator value_type of
                  Some sep \<Rightarrow>
                    if filter (\<lambda>p. strip p \<noteq> []) (split_on sep (safe_str v)) = []
                    then Inr NoResponse
                    else Inr (Formatted value_type s column_id)
                | None \<Rightarrow> Inr (Formatted value_type s column_id)))"

section \<open>Question structures\<close>

text \<open>
  Python dictionaries keep the order in which keys were first stored, and that order
  shows in the report, so every dictionary is an association list: \<open>map_of\<close> looks a key
  up, \<open>AList.update\<close> replaces the value of a key in place or appends a new key.
  A row of a question is one of the two dictionaries the program builds: an item bound to
  a column (\<open>id\<close>, \<open>label\<close>) or a matrix row (\<open>label\<close>, \<open>cells\<close>).
\<close>

datatype shape = Single | Matrix | Grouped | Choice | Form

datatype cell = Cell (cell_id: string) (cell_label: string)

datatype row_info = ItemRow string string | CellRow string "(string \<times> cell) list"

fun label_of :: "row_info \<Rightarrow> string" where
  "label_of (ItemRow i l) = l"
| "label_of (CellRow l cs) = l"

fun set_label :: "string \<Rightarrow> row_info \<Rightarrow> row_info" where
  "set_label l' (ItemRow i l) = ItemRow i l'"
| "set_label l' (CellRow l cs) = CellRow l' cs"

fun has_cells :: "row_info \<Rightarrow> bool" where
  "has_cells (ItemRow i l) = False"
| "has_cells (CellRow l cs) = True"

text \<open>\<open>row_info.get('id', '')\<close>\<close>

fun id_of :: "row_info \<Rightarrow> string" where
  "id_of (ItemRow i l) = i"
| "id_of (CellRow l cs) = []"

record qsf_info =
  qsf_text :: string
  qsf_internal_type :: string
  qsf_type :: string
  qsf_selector :: string
  choices :: "(string \<times> string) list"
  choice_order :: "string list"
  answers :: "(string \<times> string) list"
  answer_order :: "string list"

type_synonym qsf_metadata = "(string \<times> qsf_info) list"

record question =
  q_id :: string
  q_text :: string
  q_type :: shape
  q_internal_type :: string
  q_qsf_type :: string
  q_selector :: string
  columns :: "string list"
  rows :: "(string \<times> row_info) list"
  col_headers :: "(string \<times> string) list"
  col_order :: "string list"
  q_qsf_info :: "qsf_info option"

type_synonym questions = "(string \<times> question) list"

definition truthy :: "string option \<Rightarrow> bool" where
  "truthy v = (case v of None \<Rightarrow> False | Some s \<Rightarrow> s \<noteq> [])"

definition str_of :: "string option \<Rightarrow> string" where
  "str_of v = (case v of None \<Rightarrow> [] | Some s \<Rightarrow> s)"

section \<open>Label resolver\<close>

datatype label_type = ChoiceLabel | AnswerLabel

text \<open>
  The position is looked up as an identifier first, then as a 1-based index into the
  ordering list; \<open>int\<close> failing is caught by the source and leads to the placeholder.
\<close>

definition lookup_label :: "(string \<times> string) list \<Rightarrow> string list \<Rightarrow> string \<Rightarrow> string option" where
  "lookup_label labels order_list csv_index =
     (case map_of labels csv_index of
        Some l \<Rightarrow> Some l
      | None \<Rightarrow>
         (case py_int csv_index of
            None \<Rightarrow> None
          | Some n \<Rightarrow>
              if 0 \<le> n - 1 \<and> n - 1 < int (length order_list)
              then map_of labels (order_list ! nat (n - 1))
              else None))"

definition get_label_from_qsf :: "qsf_info option \<Rightarrow> string \<Rightarrow> label_type \<Rightarrow> string" where
  "get_label_from_qsf info csv_index label_type =
     (case label_type of
        ChoiceLabel \<Rightarrow>
          (case lookup_label (case info of None \<Rightarrow> [] | Some i \<Rightarrow> choices i)
                  (case info of None \<Rightarrow> [] | Some i \<Rightarrow> choice_order i) csv_index of
             Some l \<Rightarrow> l | None \<Rightarrow> ''Row '' @ csv_index)
      | AnswerLabel \<Rightarrow>
          (case lookup_label (case info of None \<Rightarrow> [] | Some i \<Rightarrow> answers i)
                  (case info of None \<Rightarrow> [] | Some i \<Rightarrow> answer_order i) csv_index of
             Some l \<Rightarrow> l | None \<Rightarrow> ''Column '' @ csv_index))"

section \<open>Column structure resolver\<close>

text \<open>
  The header of the export as pandas hands it over: the column identifiers and, per
  column, the text of the second line, missing where pandas reads NaN.
  Binding a matrix cell to a row stores into the row's \<open>cells\<close>; on a row that was
  created as an item the source raises \<open>KeyError\<close>.
\<close>

definition digits1 :: regex where
  "digits1 = Plus (Sym CDigit)"

definition csv_column_pattern :: regex where
  "csv_column_pattern =
     Seqs [Lit CHR ''Q'', Grp 1 digits1, Opt (Seq (Lit CHR ''_'') (Grp 2 digits1)),
           Opt (Seq (Lit CHR ''_'') (Grp 3 digits1)), Opt (Grp 4 (Str ''_TEXT''))]"

definition qsf_column_pattern :: regex where
  "qsf_column_pattern = Seq csv_column_pattern Eol"

definition qsf_alternate_pattern :: regex where
  "qsf_alternate_pattern =
     Seqs [Lit CHR ''Q'', Grp 1 digits1, Opt (Seq (Lit CHR ''_'') (Grp 2 (Plus (Sym CDot)))), Eol]"

definition new_question :: "string \<Rightarrow> string \<Rightarrow> string \<Rightarrow> qsf_info option \<Rightarrow> question" where
  "new_question base_q text internal info =
     \<lparr>q_id = base_q, q_text = text, q_type = Single, q_internal_type = internal,
      q_qsf_type = (case info of None \<Rightarrow> [] | Some i \<Rightarrow> qsf_type i),
      q_selector = (case info of None \<Rightarrow> [] | Some i \<Rightarrow> qsf_selector i),
      columns = [], rows = [], col_headers = [], col_order = [], q_qsf_info = info\<rparr>"

definition track_column :: "string \<Rightarrow> question \<Rightarrow> question" where
  "track_column col_id q =
     (if col_id \<in> set (columns q) then q else q\<lparr>columns := columns q @ [col_id]\<rparr>)"

text \<open>\<open>q['rows'][sub1]['cells'][sub2] = {'id': col_id, 'col_label': col_label}\<close>\<close>

definition bind_cell :: "string \<Rightarrow> string \<Rightarrow> cell \<Rightarrow> question \<Rightarrow> error + question" where
  "bind_cell sub1 sub2 c q =
     (case map_of (rows q) sub1 of
        Some (CellRow l cs) \<Rightarrow>
          Inr (q\<lparr>rows := AList.update sub1 (CellRow l (AList.update sub2 c cs)) (rows q)\<rparr>)
      | _ \<Rightarrow> Inl KeyError)"

definition add_row_if_new :: "string \<Rightarrow> row_info \<Rightarrow> question \<Rightarrow> question" where
  "add_row_if_new sub1 r q =
     (if map_of (rows q) sub1 = None then q\<lparr>rows := AList.update sub1 r (rows q)\<rparr> else q)"

definition add_header_if_new :: "string \<Rightarrow> string \<Rightarrow> question \<Rightarrow> question" where
  "add_header_if_new sub2 l q =
     (if map_of (col_headers q) sub2 = None
      then q\<lparr>col_headers := AList.update sub2 l (col_headers q), col_order := col_order q @ [sub2]\<rparr>
      else q)"

definition csv_structure ::
  "string \<Rightarrow> string option \<Rightarrow> string option \<Rightarrow> string option \<Rightarrow> string option \<Rightarrow> question
   \<Rightarrow> error + question" where
  "csv_structure col_id sub1 sub2 row_label0 col_label0 q =
     (if truthy sub1 \<and> truthy sub2 then
        (let s1 = str_of sub1; s2 = str_of sub2;
             row_label = (if truthy row_label0 then str_of row_label0 else ''Row '' @ s1);
             col_label = (if truthy col_label0 then str_of col_label0 else ''Column '' @ s2);
             q1 = q\<lparr>q_type := Matrix\<rparr>;
             q2 = (case map_of (rows q1) s1 of
                     None \<Rightarrow> q1\<lparr>rows := AList.update s1 (CellRow row_label []) (rows q1)\<rparr>
                   | Some r \<Rightarrow>
                       if row_label \<noteq> ''Row '' @ s1
                       then q1\<lparr>rows := AList.update s1 (set_label row_label r) (rows q1)\<rparr>
                       else q1)
         in ebind (bind_cell s1 s2 (Cell col_id col_label) q2) (\<lambda>q3.
              Inr (if map_of (col_headers q3) s2 = None then add_header_if_new s2 col_label q3
                   else if col_label \<noteq> ''Column '' @ s2
                   then q3\<lparr>col_headers := AList.update s2 col_label (col_headers q3)\<rparr>
                   else q3)))
      else if truthy sub1 then
        (let s1 = str_of sub1;
             item_label = (if truthy row_label0 then str_of row_label0 else ''Item '' @ s1)
         in Inr (add_row_if_new s1 (ItemRow col_id item_label) (q\<lparr>q_type := Grouped\<rparr>)))
      else Inr q)"

definition csv_column :: "questions \<Rightarrow> string \<times> string option \<Rightarrow> error + questions" where
  "csv_column qs col =
     (case col of (col_id, col_text) \<Rightarrow>
        if col_id \<in> set METADATA_COLUMNS then Inr qs
        else if is_timing_column col_id then Inr qs
        else if \<not> startswith col_id ''Q'' then Inr qs
        else (case re_match False csv_column_pattern col_id of
                None \<Rightarrow> Inr qs
              | Some m \<Rightarrow>
                 (let base_q = ''Q'' @ str_of (group m 1);
                      sub1 = group m 2; sub2 = group m 3;
                      is_text_field = (group m 4 \<noteq> None)
                  in if is_text_field \<and> truthy sub1 then Inr qs
                     else (case extract_matrix_labels col_text of
                             (base_text, row_label, col_label) \<Rightarrow>
                               (let q0 = (case map_of qs base_q of
                                            None \<Rightarrow> new_question base_q [] ''unknown'' None
                                          | Some q \<Rightarrow> q);
                                    q1 = (if length base_text > length (q_text q0)
                                          then q0\<lparr>q_text := base_text\<rparr> else q0);
                                    q2 = track_column col_id q1
                                in ebind (csv_structure col_id sub1 sub2 row_label col_label q2)
                                     (\<lambda>q3. Inr (AList.update base_q q3 qs)))))))"

text \<open>A loop that stops at the first exception.\<close>

fun efold :: "('s \<Rightarrow> 'a \<Rightarrow> error + 's) \<Rightarrow> 'a list \<Rightarrow> 's \<Rightarrow> error + 's" where
  "efold f [] st = Inr st"
| "efold f (x # xs) st = (case f st x of Inl e \<Rightarrow> Inl e | Inr st' \<Rightarrow> efold f xs st')"

text \<open>
  \<open>df_header.iloc[0]\<close> raises \<open>IndexError\<close> when the export has no line after the
  header.
\<close>

definition extract_questions_from_csv ::
  "string list \<Rightarrow> string option list list \<Rightarrow> error + questions" where
  "extract_questions_from_csv cols lines =
     (case lines of [] \<Rightarrow> Inl IndexError
      | texts # _ \<Rightarrow> efold csv_column (zip cols texts) [])"

text \<open>
  Definition-assisted mode. A column identifier is parsed by the first pattern (four
  groups) or else by the alternate one (two groups, the second any text).
\<close>

definition matrix_types :: "string list" where
  "matrix_types = [''matrix_text'', ''matrix_likert'', ''matrix_multi'']"

definition choice_types :: "string list" where
  "choice_types = [''single_choice'', ''multi_choice'']"

definition parse_qsf_column :: "string \<Rightarrow> (string \<times> string option \<times> string option \<times> bool) option" where
  "parse_qsf_column col_id =
     (case re_match False qsf_column_pattern col_id of
        Some m \<Rightarrow> Some (''Q'' @ str_of (group m 1), group m 2, group m 3, group m 4 \<noteq> None)
      | None \<Rightarrow>
         (case re_match False qsf_alternate_pattern col_id of
            Some m \<Rightarrow> Some (''Q'' @ str_of (group m 1), group m 2, None, False)
          | None \<Rightarrow> None))"

definition qsf_structure ::
  "string \<Rightarrow> string option \<Rightarrow> string \<Rightarrow> string option \<Rightarrow> string option \<Rightarrow> qsf_info option
   \<Rightarrow> question \<Rightarrow> error + question" where
  "qsf_structure col_id col_text internal_type sub1 sub2 info q =
     (let s1 = str_of sub1; s2 = str_of sub2 in
      if internal_type \<in> set matrix_types then
        (let q1 = q\<lparr>q_type := Matrix\<rparr> in
         if truthy sub1 \<and> truthy sub2 then
           (let row_label = get_label_from_qsf info s1 ChoiceLabel;
                col_label = get_label_from_qsf info s2 AnswerLabel
            in ebind (bind_cell s1 s2 (Cell col_id col_label)
                        (add_row_if_new s1 (CellRow row_label []) q1))
                 (\<lambda>q2. Inr (add_header_if_new s2 col_label q2)))
         else if truthy sub1 then
           Inr (add_row_if_new s1 (ItemRow col_id (get_label_from_qsf info s1 ChoiceLabel)) q1)
         else Inr q1)
      else if internal_type = ''form'' then
        (let q1 = q\<lparr>q_type := Form\<rparr> in
         if truthy sub1
         then Inr (add_row_if_new s1 (ItemRow col_id (get_label_from_qsf info s1 ChoiceLabel)) q1)
         else Inr q1)
      else if internal_type \<in> set choice_types then
        (if truthy sub1
         then Inr (add_row_if_new s1 (ItemRow col_id (get_label_from_qsf info s1 ChoiceLabel))
                     (q\<lparr>q_type := Choice\<rparr>))
         else Inr q)
      else if truthy sub1 \<and> truthy sub2 then
        (let q1 = q\<lparr>q_type := Matrix\<rparr>;
             row_qsf = get_label_from_qsf info s1 ChoiceLabel;
             col_qsf = get_label_from_qsf info s2 AnswerLabel;
             generic = (row_qsf = ''Row '' @ s1 \<or> col_qsf = ''Column '' @ s2);
             csv_labels = extract_matrix_labels col_text;
             row_csv = fst (snd csv_labels); col_csv = snd (snd csv_labels);
             row_label = (if generic \<and> row_qsf = ''Row '' @ s1 \<and> truthy row_csv
                          then str_of row_csv else row_qsf);
             col_label = (if generic \<and> col_qsf = ''Column '' @ s2 \<and> truthy col_csv
                          then str_of col_csv else col_qsf)
         in ebind (bind_cell s1 s2 (Cell col_id col_label)
                     (add_row_if_new s1 (CellRow row_label []) q1))
              (\<lambda>q2. Inr (add_header_if_new s2 col_label q2)))
      else if truthy sub1 then
        (let q1 = q\<lparr>q_type := Grouped\<rparr>;
             item_qsf = get_label_from_qsf info s1 ChoiceLabel;
             item_csv = fst (snd (extract_matrix_labels col_text));
             item_label = (if item_qsf = ''Row '' @ s1 \<and> truthy item_csv
                           then str_of item_csv else item_qsf)
         in Inr (add_row_if_new s1 (ItemRow col_id item_label) q1))
      else Inr q)"

definition qsf_column :: "qsf_metadata \<Rightarrow> questions \<Rightarrow> string \<times> string option \<Rightarrow> error + questions" where
  "qsf_column qsf_metadata qs col =
     (case col of (col_id, col_text) \<Rightarrow>
        if col_id \<in> set METADATA_COLUMNS then Inr qs
        else if is_timing_column col_id then Inr qs
        else if \<not> startswith col_id ''Q'' then Inr qs
        else (case parse_qsf_column col_id of
                None \<Rightarrow> Inr qs
              | Some (base_q, sub1_0, sub2, is_text_0) \<Rightarrow>
                 (let retag = (truthy sub1_0 \<and> \<not> isdigit (str_of sub1_0) \<and> sub1_0 = Some ''TEXT'');
                      is_text_field = (is_text_0 \<or> retag);
                      sub1 = (if retag then None else sub1_0)
                  in if is_text_field \<and> truthy sub1 then Inr qs
                     else
                       (let info = map_of qsf_metadata base_q;
                            internal_type = (case info of None \<Rightarrow> ''unknown''
                                             | Some i \<Rightarrow> qsf_internal_type i);
                            text0 = (case info of None \<Rightarrow> [] | Some i \<Rightarrow> qsf_text i);
                            q0 = (case map_of qs base_q of
                                    None \<Rightarrow> new_question base_q
                                              (if text0 = [] then clean_question_text col_text else text0)
                                              internal_type info
                                  | Some q \<Rightarrow> q);
                            q1 = track_column col_id q0
                        in ebind (qsf_structure col_id col_text internal_type sub1 sub2 info q1)
                             (\<lambda>q2. Inr (AList.update base_q q2 qs))))))"

definition extract_questions_with_qsf ::
  "string list \<Rightarrow> string option list list \<Rightarrow> qsf_metadata \<Rightarrow> error + questions" where
  "extract_questions_with_qsf cols lines qsf_metadata =
     (case lines of [] \<Rightarrow> Inl IndexError
      | texts # _ \<Rightarrow> efold (qsf_column qsf_metadata) (zip cols texts) [])"

section \<open>Response renderer\<close>

text \<open>
  A respondent's row answers \<open>row.get(col)\<close>: the cell of a column, or nothing for a
  column that is missing or NaN. A rendered answer is kept as the table the source
  writes, not as its markup: the layout chosen, the labels, and per cell the formatted
  value or the neutral dash.
\<close>

type_synonym row = "string \<Rightarrow> string option"

datatype cellfrag = Dash | CellValue vfrag

datatype fragment = Fragment vfrag
  | VerticalList "vfrag list"
  | MatrixTable "string list" "(string \<times> cellfrag list) list"
  | DataTable "(string \<times> vfrag) list"
  | CheckmarkTable "string list" "(string \<times> bool list) list"

definition format_empty :: fragment where
  "format_empty = Fragment NoResponse"

definition has_response :: "question \<Rightarrow> row \<Rightarrow> bool" where
  "has_response q r = list_ex (\<lambda>col. \<not> is_empty (r col)) (columns q)"

text \<open>
  \<open>sorted(keys, key=sort_row_key)\<close>: the keys are computed first (and \<open>int\<close> may
  raise), tuples and strings compare lexicographically, strings by code point, and the
  sort is stable.
\<close>

fun str_less :: "string \<Rightarrow> string \<Rightarrow> bool" where
  "str_less [] [] = False"
| "str_less [] (y # ys) = True"
| "str_less (x # xs) [] = False"
| "str_less (x # xs) (y # ys) =
     ((of_char x :: nat) < of_char y \<or> (x = y \<and> str_less xs ys))"

type_synonym sort_key = "nat \<times> int \<times> string"

definition key_less :: "sort_key \<Rightarrow> sort_key \<Rightarrow> bool" where
  "key_less a b =
     (case a of (a1, a2, a3) \<Rightarrow> case b of (b1, b2, b3) \<Rightarrow>
        a1 < b1 \<or> (a1 = b1 \<and> (a2 < b2 \<or> (a2 = b2 \<and> str_less a3 b3))))"

fun insert_by :: "('k \<Rightarrow> 'k \<Rightarrow> bool) \<Rightarrow> 'k \<times> 'a \<Rightarrow> ('k \<times> 'a) list \<Rightarrow> ('k \<times> 'a) list" where
  "insert_by lt x [] = [x]"
| "insert_by lt x (y # ys) =
     (if lt (fst y) (fst x) then y # insert_by lt x ys else x # y # ys)"

definition stable_sort :: "('k \<Rightarrow> 'k \<Rightarrow> bool) \<Rightarrow> ('k \<times> 'a) list \<Rightarrow> 'a list" where
  "stable_sort lt xs = map snd (foldr (insert_by lt) xs [])"

fun emap :: "('a \<Rightarrow> error + 'b) \<Rightarrow> 'a list \<Rightarrow> error + 'b list" where
  "emap f [] = Inr []"
| "emap f (x # xs) =
     (case f x of Inl e \<Rightarrow> Inl e
      | Inr y \<Rightarrow> (case emap f xs of Inl e \<Rightarrow> Inl e | Inr ys \<Rightarrow> Inr (y # ys)))"

definition sort_row_key :: "string \<Rightarrow> error + sort_key" where
  "sort_row_key k =
     (if isdigit k
      then (case py_int k of None \<Rightarrow> Inl ValueError | Some n \<Rightarrow> Inr (0, n, []))
      else Inr (1, 0, lower k))"

definition sorted_rows :: "(string \<times> row_info) list \<Rightarrow> error + (string \<times> row_info) list" where
  "sorted_rows rows_data =
     ebind (emap (\<lambda>kv. ebind (sort_row_key (fst kv)) (\<lambda>k. Inr (k, kv))) rows_data)
       (\<lambda>keyed. Inr (stable_sort key_less keyed))"

text \<open>
  The ratios of the source are floats compared with the constants 0.7, 0.5 and 0.3. Both
  sides are quotients of list lengths, for which the float comparison agrees with the
  exact one, so the comparisons are written over the natural numbers.
\<close>

definition values_are_numeric_data :: "string list \<Rightarrow> bool" where
  "values_are_numeric_data values =
     (let non_empty = filter (\<lambda>v. safe_str (Some v) \<noteq> []) values in
      if non_empty = [] then False
      else let numeric_count = length (filter (\<lambda>v. is_numeric_value (Some v)) non_empty);
               n = length non_empty in
        if 10 * numeric_count \<ge> 7 * n then True
        else let unique_values = remdups (map (\<lambda>v. safe_str (Some v)) non_empty) in
          length unique_values > 5 \<and> 2 * numeric_count \<ge> n)"

definition date_pattern :: regex where
  "date_pattern =
     Seqs [Bol, Rep 1 2 (Sym CDigit), Sym (COneOf ''/-''), Rep 1 2 (Sym CDigit),
           Sym (COneOf ''/-''), Rep 2 4 (Sym CDigit), Eol]"

definition is_data_pattern :: "string \<Rightarrow> bool" where
  "is_data_pattern val \<longleftrightarrow>
     (CHR ''@'' \<in> set val \<and> CHR ''.'' \<in> set val)
     \<or> re_match False date_pattern val \<noteq> None
     \<or> (length (split_ws val) \<ge> 2 \<and> length val > 10)"

definition values_are_unique_data :: "string list \<Rightarrow> bool" where
  "values_are_unique_data values =
     (let non_empty = filter (\<lambda>v. v \<noteq> []) (map (\<lambda>v. safe_str (Some v)) values) in
      if non_empty = [] then False
      else let unique_values = remdups non_empty; n = length non_empty in
        if 2 * length unique_values > n then True
        else if length unique_values > 5 \<and> length (remdups (map length unique_values)) > 3 then True
        else let data_pattern_count = length (filter is_data_pattern non_empty) in
          data_pattern_count > 0 \<and> 10 * data_pattern_count \<ge> 3 * n)"

record item =
  item_label :: string
  item_value :: string
  item_col_id :: string

definition format_as_data_table :: "item list \<Rightarrow> string \<Rightarrow> error + fragment" where
  "format_as_data_table items question_text =
     ebind (emap (\<lambda>it. ebind (format_value (Some (item_value it)) question_text (item_col_id it))
                         (\<lambda>f. Inr (item_label it, f))) items)
       (\<lambda>table_rows. Inr (DataTable table_rows))"

text \<open>
  The selections of an item: the tokens of a categorical value, nothing for a value that
  is not categorical.
\<close>

definition item_selections :: "string \<Rightarrow> string list option" where
  "item_selections val_str =
     (if CHR '','' \<in> set val_str \<and> \<not> is_coordinate (Some val_str) then
        (let parts = filter (\<lambda>p. p \<noteq> []) (map strip (split_on CHR '','' val_str)) in
         if list_all (\<lambda>p. length p \<le> SHORT_VALUE_MAX_LENGTH \<and> \<not> is_numeric_value (Some p)) parts
         then Some parts else None)
      else if length val_str \<le> SHORT_VALUE_MAX_LENGTH \<and> \<not> is_numeric_value (Some val_str)
      then Some [val_str]
      else None)"

definition sorted_strings :: "string list \<Rightarrow> string list" where
  "sorted_strings xs = stable_sort str_less (map (\<lambda>x. (x, x)) (remdups xs))"

definition format_as_checkmark_table :: "item list \<Rightarrow> string list \<Rightarrow> fragment" where
  "format_as_checkmark_table items all_selections =
     (let column_order = sorted_strings all_selections in
      CheckmarkTable column_order
        (map (\<lambda>it. (item_label it,
                     map (\<lambda>col. case item_selections (item_value it) of
                                   None \<Rightarrow> False
                                 | Some sel \<Rightarrow> sel \<noteq> [] \<and> col \<in> set sel) column_order))
             items))"

definition collect_items :: "(string \<times> row_info) list \<Rightarrow> row \<Rightarrow> item list" where
  "collect_items in_order r =
     map (\<lambda>kv. \<lparr>item_label = label_of (snd kv), item_value = safe_str (r (id_of (snd kv))),
                 item_col_id = id_of (snd kv)\<rparr>)
         (filter (\<lambda>kv. \<not> is_empty (r (id_of (snd kv)))) in_order)"

definition use_checkmark_table :: "item list \<Rightarrow> bool" where
  "use_checkmark_table items =
     (let all_selections = remdups (concat (map (\<lambda>it. case item_selections (item_value it) of
                                None \<Rightarrow> [] | Some sel \<Rightarrow> sel) items));
          k = length all_selections in
      2 \<le> k \<and> k \<le> 10 \<and> 10 * k \<le> 7 * length items
      \<and> list_all (\<lambda>it. item_selections (item_value it) \<noteq> None) items)"

definition format_columns_without_rows :: "question \<Rightarrow> row \<Rightarrow> error + fragment" where
  "format_columns_without_rows q r =
     (let vals = filter (\<lambda>cv. \<not> is_empty (r (fst cv)))
                   (map (\<lambda>col_id. (col_id, safe_str (r col_id))) (columns q)) in
      case vals of
        [] \<Rightarrow> Inr format_empty
      | [cv] \<Rightarrow> ebind (format_value (Some (snd cv)) (q_text q) (fst cv)) (\<lambda>f. Inr (Fragment f))
      | _ \<Rightarrow> ebind (emap (\<lambda>cv. format_value (Some (snd cv)) (q_text q) (fst cv)) vals)
               (\<lambda>fs. Inr (VerticalList fs)))"

definition format_grouped_response :: "question \<Rightarrow> row \<Rightarrow> error + fragment" where
  "format_grouped_response q r =
     (if rows q = [] \<and> columns q \<noteq> [] then format_columns_without_rows q r
      else ebind (sorted_rows (rows q)) (\<lambda>in_order.
        let items = collect_items in_order r;
            all_values = map item_value items in
        if items = [] then Inr format_empty
        else if values_are_numeric_data all_values then format_as_data_table items (q_text q)
        else if values_are_unique_data all_values then format_as_data_table items (q_text q)
        else if use_checkmark_table items
        then Inr (format_as_checkmark_table items
                    (concat (map (\<lambda>it. case item_selections (item_value it) of
                                           None \<Rightarrow> [] | Some sel \<Rightarrow> sel) items)))
        else format_as_data_table items (q_text q)))"

definition cells_of :: "row_info \<Rightarrow> (string \<times> cell) list" where
  "cells_of ri = (case ri of CellRow l cs \<Rightarrow> cs | ItemRow i l \<Rightarrow> [])"

definition matrix_has_data :: "question \<Rightarrow> row \<Rightarrow> bool" where
  "matrix_has_data q r =
     list_ex (\<lambda>kv. list_ex (\<lambda>c. \<not> is_empty (r (cell_id (snd c)))) (cells_of (snd kv))) (rows q)"

definition matrix_cell :: "string \<Rightarrow> (string \<times> cell) list \<Rightarrow> row \<Rightarrow> string \<Rightarrow> error + cellfrag" where
  "matrix_cell question_text cs r col_key =
     (case map_of cs col_key of
        None \<Rightarrow> Inr Dash
      | Some c \<Rightarrow>
          if is_empty (r (cell_id c)) then Inr Dash
          else ebind (format_value (r (cell_id c)) question_text (cell_id c))
                 (\<lambda>f. Inr (CellValue f)))"

definition matrix_row :: "question \<Rightarrow> row \<Rightarrow> string \<times> row_info \<Rightarrow> error + (string \<times> cellfrag list)" where
  "matrix_row q r kv =
     ebind (emap (matrix_cell (q_text q) (cells_of (snd kv)) r) (col_order q))
       (\<lambda>cs. Inr (label_of (snd kv), cs))"

definition format_matrix_response :: "question \<Rightarrow> row \<Rightarrow> error + fragment" where
  "format_matrix_response q r =
     (if list_ex (\<lambda>kv. has_cells (snd kv)) (rows q) then
        (if \<not> matrix_has_data q r then Inr format_empty
         else
           (let headers = map (\<lambda>col_key. case map_of (col_headers q) col_key of
                                 Some l \<Rightarrow> l | None \<Rightarrow> ''Col '' @ col_key) (col_order q)
            in ebind (sorted_rows (rows q)) (\<lambda>in_order.
                 ebind (emap (matrix_row q r) (filter (\<lambda>kv. has_cells (snd kv)) in_order))
                   (\<lambda>table_rows. Inr (MatrixTable headers table_rows)))))
      else format_grouped_response q r)"

definition form_column_pattern :: regex where
  "form_column_pattern = Seqs [Lit CHR ''Q'', digits1, Lit CHR ''_'', Grp 1 digits1]"

definition format_form_response :: "question \<Rightarrow> row \<Rightarrow> error + fragment" where
  "format_form_response q r =
     ebind (if rows q = [] \<and> columns q \<noteq> [] then
              Inr (map (\<lambda>col_id.
                     \<lparr>item_label = (case re_match False form_column_pattern col_id of
                                       Some m \<Rightarrow> get_label_from_qsf (q_qsf_info q)
                                                   (str_of (group m 1)) ChoiceLabel
                                     | None \<Rightarrow> col_id),
                       item_value = safe_str (r col_id), item_col_id = col_id\<rparr>)
                   (filter (\<lambda>col_id. \<not> is_empty (r col_id)) (columns q)))
            else ebind (sorted_rows (rows q)) (\<lambda>in_order. Inr (collect_items in_order r)))
       (\<lambda>items. if items = [] then Inr format_empty
                 else format_as_data_table items (q_text q))"

definition format_single_response :: "question \<Rightarrow> row \<Rightarrow> error + fragment" where
  "format_single_response q r =
     (case columns q of
        [] \<Rightarrow> Inr format_empty
      | col_id # _ \<Rightarrow>
          if col_id = [] then Inr format_empty
          else if is_empty (r col_id) then Inr format_empty
          else ebind (format_value (r col_id) (q_text q) col_id) (\<lambda>f. Inr (Fragment f)))"

section \<open>Report generation\<close>

datatype respondent_name = Named string | Anonymous nat

record respondent_info =
  name :: respondent_name
  response_id :: string
  email :: string

record respondent =
  info :: respondent_info
  answers_row :: row

definition get_respondent_info :: "row \<Rightarrow> nat \<Rightarrow> respondent_info" where
  "get_respondent_info r index =
     (let first = safe_str (r ''RecipientFirstName'');
          last = safe_str (r ''RecipientLastName'');
          mail = safe_str (r ''RecipientEmail'');
          resp_id = safe_str (r ''ResponseId'');
          ext_ref = safe_str (r ''ExternalReference'')
      in \<lparr>name = (if first \<noteq> [] then Named (strip (first @ '' '' @ last))
                  else if mail \<noteq> [] then Named mail
                  else if ext_ref \<noteq> [] then Named ext_ref
                  else if resp_id \<noteq> [] then Named resp_id
                  else Anonymous (index + 1)),
          response_id = resp_id, email = mail\<rparr>)"

text \<open>
  The report is kept as its summary counts and its question cards; the style sheet, the
  time stamp and the optional debug annotations are left out. A card lists the respondents
  who answered the question, each with the header and the rendered answer, or carries the
  single notice that nobody answered.
\<close>

record respondent_header =
  header_name :: respondent_name
  header_meta :: "string option"

definition format_respondent_header :: "respondent_info \<Rightarrow> respondent_header" where
  "format_respondent_header i =
     \<lparr>header_name = name i,
      header_meta = (if response_id i \<noteq> [] then Some (response_id i) else None)\<rparr>"

datatype card_body = NoResponses | Responses "(respondent_header \<times> fragment) list"

record card =
  card_number :: string
  card_text :: string
  body :: card_body

record report =
  respondent_count :: nat
  question_count :: nat
  matrix_count :: nat
  cards :: "card list"

definition render_answer :: "question \<Rightarrow> row \<Rightarrow> error + fragment" where
  "render_answer q r =
     (if q_type q = Matrix then format_matrix_response q r
      else if q_type q = Form \<or> q_internal_type q = ''form'' then format_form_response q r
      else if q_type q = Grouped \<or> q_type q = Choice then format_grouped_response q r
      else if length (columns q) = 1 then format_single_response q r
      else format_grouped_response q r)"

definition question_card :: "respondent list \<Rightarrow> string \<times> question \<Rightarrow> error + card" where
  "question_card respondents kq =
     (let answered = filter (\<lambda>resp. has_response (snd kq) (answers_row resp)) respondents in
      ebind (if answered = [] then Inr NoResponses
             else ebind (emap (\<lambda>resp. ebind (render_answer (snd kq) (answers_row resp))
                                 (\<lambda>answer. Inr (format_respondent_header (info resp), answer)))
                           answered)
                    (\<lambda>rs. Inr (Responses rs)))
        (\<lambda>b. Inr \<lparr>card_number = fst kq, card_text = q_text (snd kq), body = b\<rparr>))"

text \<open>
  The cards are ordered by the number in the question identifier; \<open>re.search\<close>
  returning nothing would end in an exception on \<open>.group\<close>.
\<close>

definition question_number :: "string \<Rightarrow> error + int" where
  "question_number qid =
     (case re_search False (Seq (Lit CHR ''Q'') (Grp 1 digits1)) qid of
        None \<Rightarrow> Inl AttributeError
      | Some m \<Rightarrow> (case py_int (str_of (group m 1)) of None \<Rightarrow> Inl ValueError | Some n \<Rightarrow> Inr n))"

definition generate_html :: "questions \<Rightarrow> respondent list \<Rightarrow> error + report" where
  "generate_html qs respondents =
     ebind (emap (\<lambda>kq. ebind (question_number (fst kq)) (\<lambda>n. Inr (n, kq))) qs) (\<lambda>keyed.
       ebind (emap (question_card respondents) (stable_sort (<) keyed)) (\<lambda>cs.
         Inr \<lparr>respondent_count = length respondents, question_count = length qs,
              matrix_count = length (filter (\<lambda>kq. q_type (snd kq) = Matrix) qs),
              cards = cs\<rparr>))"

section \<open>Main processing\<close>

text \<open>
  The two input files as the program finds them. The export is missing, unreadable as
  CSV, or read by pandas into the column identifiers and the lines after them. The
  definition file is not named, named but missing, or present with its text.
  \<open>json.load\<close> is the parameter \<open>json_loads\<close>, which yields nothing where the text is
  not JSON; the traversal of the parsed document into the question metadata (on which no
  statement below depends) is the parameter \<open>build_metadata\<close>.
\<close>

datatype csv_file = CsvMissing | CsvUnreadable | Csv "string list" "string option list list"

datatype qsf_file = NoQsfPath | QsfMissing | Qsf string

definition validate_csv :: "csv_file \<Rightarrow> error + unit" where
  "validate_csv f = (case f of CsvMissing \<Rightarrow> Inl FileNotFoundError
     | CsvUnreadable \<Rightarrow> Inl ValueError | Csv cols lines \<Rightarrow> Inr ())"

definition parse_qsf ::
  "(string \<Rightarrow> 'j option) \<Rightarrow> ('j \<Rightarrow> error + qsf_metadata) \<Rightarrow> string \<Rightarrow> error + qsf_metadata" where
  "parse_qsf json_loads build_metadata content =
     (case json_loads content of None \<Rightarrow> Inl JSONDecodeError | Some data \<Rightarrow> build_metadata data)"

definition row_of :: "string list \<Rightarrow> string option list \<Rightarrow> row" where
  "row_of cols line = (\<lambda>col. case map_of (zip cols line) col of Some (Some v) \<Rightarrow> Some v | _ \<Rightarrow> None)"

text \<open>
  The responses are the lines after the header texts; a first line with \<open>ImportId\<close> or
  a brace in some cell is dropped.
\<close>

definition is_import_row :: "string option list \<Rightarrow> bool" where
  "is_import_row line =
     list_ex (\<lambda>c. case c of None \<Rightarrow> False
                   | Some v \<Rightarrow> contains ''ImportId'' v \<or> CHR ''{'' \<in> set v) line"

definition response_lines :: "string option list list \<Rightarrow> string option list list" where
  "response_lines lines =
     (case drop 1 lines of [] \<Rightarrow> []
      | l # ls \<Rightarrow> if is_import_row l then ls else l # ls)"

definition read_respondents :: "string list \<Rightarrow> string option list list \<Rightarrow> respondent list" where
  "read_respondents cols lines =
     map (\<lambda>(idx, line). \<lparr>info = get_respondent_info (row_of cols line) idx,
                           answers_row = row_of cols line\<rparr>)
         (enumerate 0 (response_lines lines))"

definition process_qualtrics ::
  "(string \<Rightarrow> 'j option) \<Rightarrow> ('j \<Rightarrow> error + qsf_metadata) \<Rightarrow> csv_file \<Rightarrow> qsf_file
   \<Rightarrow> error + (report \<times> bool)" where
  "process_qualtrics json_loads build_metadata csv qsf =
     ebind (validate_csv csv) (\<lambda>_.
       case csv of
         Csv cols lines \<Rightarrow>
           ebind (case qsf of
                    Qsf content \<Rightarrow>
                      ebind (parse_qsf json_loads build_metadata content) (\<lambda>m. Inr (Some m))
                  | _ \<Rightarrow> Inr None) (\<lambda>qsf_metadata.
             ebind (case qsf_metadata of
                      Some m \<Rightarrow> extract_questions_with_qsf cols lines m
                    | None \<Rightarrow> extract_questions_from_csv cols lines) (\<lambda>qs.
               ebind (generate_html qs (read_respondents cols lines)) (\<lambda>html.
                 Inr (html, qsf_metadata \<noteq> None))))
       | _ \<Rightarrow> Inl FileNotFoundError)"

section \<open>Properties of the value classifier\<close>

subsection \<open>The value \<open>1,2,3\<close>\<close>

lemma safe_str_123: "safe_str (Some ''1,2,3'') = ''1,2,3''"
  by code_simp

lemma parts_123: "list_all short_digits (split_on CHR '','' ''1,2,3'')"
  by code_simp

lemma not_multi_123:
  "\<not> is_multi_value (Some ''1,2,3'') CHR ''|''"
  "\<not> is_multi_value (Some ''1,2,3'') CHR '';''"
  "\<not> is_multi_value (Some ''1,2,3'') CHR '',''"
  by code_simp+

lemma shape_123:
  "\<not> is_empty (Some ''1,2,3'')" "\<not> is_url (Some ''1,2,3'')"
  "\<not> is_file_path (Some ''1,2,3'')" "\<not> is_coordinate (Some ''1,2,3'')"
  "\<not> is_json (Some ''1,2,3'')" "\<not> is_hierarchical (Some ''1,2,3'')"
  "\<not> is_long_text (Some ''1,2,3'')"
  by code_simp+

lemma numeric_code_123:
  "is_numeric_code (Some ''1,2,3'') q =
     Inr (\<not> contains_any q NUMERIC_QUESTION_KEYWORDS)"
  using parts_123
  by (simp add: is_numeric_code_def safe_str_123 Let_def del: split_on.simps)

lemma no_keyword_in_empty_text: "\<not> contains_any [] NUMERIC_QUESTION_KEYWORDS"
  by code_simp

text \<open>
  C5. The value \<open>1,2,3\<close> is never classified as a comma list, whatever the question text
  and the column identifier; with an empty question text and a column identifier that is
  not a timing column it is classified as a code.
\<close>

theorem digits_list_is_code_not_comma_list:
  "detect_value_type (Some ''1,2,3'') q c \<noteq> Inr CommaList \<and>
   (\<not> is_timing_column c \<longrightarrow> detect_value_type (Some ''1,2,3'') [] c = Inr Code)"
proof
  show "detect_value_type (Some ''1,2,3'') q c \<noteq> Inr CommaList"
    by (simp add: detect_value_type_def shape_123 not_multi_123 numeric_code_123 ebind_def)
  show "\<not> is_timing_column c \<longrightarrow> detect_value_type (Some ''1,2,3'') [] c = Inr Code"
    by (simp add: detect_value_type_def shape_123 not_multi_123 numeric_code_123 ebind_def
        no_keyword_in_empty_text)
qed

theorem digits_list_is_code_witness:
  "\<not> is_timing_column ''Q7'' \<and> detect_value_type (Some ''1,2,3'') [] ''Q7'' = Inr Code
   \<and> detect_value_type (Some ''1,2,3'') ''Pick all that apply'' ''Q7'' \<noteq> Inr CommaList"
proof -
  have t: "\<not> is_timing_column ''Q7''"
    by code_simp
  from t digits_list_is_code_not_comma_list [of "''Pick all that apply''" "''Q7''"]
  show ?thesis
    by simp
qed

subsection \<open>A digit that is no decimal digit\<close>

text \<open>
  C6. \<open>str.isdigit\<close> accepts the superscript two, \<open>int\<close> does not: for that value, an
  empty question text and an empty column identifier the classifier raises
  \<open>ValueError\<close> instead of returning a tag.
\<close>

theorem classifier_raises_on_superscript_digit:
  "detect_value_type (Some [CHR 0xB2]) [] [] = Inl ValueError"
  by code_simp

end
